theory Spec2Isabelle
  imports Complex_Main
begin

section \<open>Numbers, errors and the simulation context\<close>

text \<open>
  The solvers of \<^verbatim>\<open>QuantVisualizer.py\<close> and \<^verbatim>\<open>SimPlayground.py\<close> compute with
  Python numbers and NumPy arrays. The model computes with exact reals and unbounded
  integers: rounding and overflow of binary floating point and of NumPy's 64-bit
  integers (the product \<^verbatim>\<open>2**n * factorial(n)\<close> of the oscillator leaves their range
  from mode 17 on) are not represented. What
  is represented is where NumPy leaves the reals: a NumPy division by zero, the
  square root of a negative number and a fractional power of a negative number give
  \<^verbatim>\<open>inf\<close> or \<^verbatim>\<open>nan\<close> (with a warning, without an exception), and every operation
  the solvers apply to such a value gives \<^verbatim>\<open>inf\<close> or \<^verbatim>\<open>nan\<close> again (an infinity
  arises only in the square well, where nothing divides by it or exponentiates it). The
  constructor \<open>NonFin\<close> stands for either. A division of two plain Python numbers by
  zero raises \<^verbatim>\<open>ZeroDivisionError\<close> instead.
\<close>

datatype npfloat = Fin real | NonFin

datatype pyerr = KeyError string | TypeError | ZeroDivisionError | ValueError | IndexError

text \<open>
  The values of the dictionaries \<^verbatim>\<open>sim_params\<close> and \<^verbatim>\<open>exp_vals\<close>: Python integers,
  floats and booleans supplied by the caller, and the NumPy scalars and the arrays (or
  lists of NumPy floats) the solvers store. In arithmetic a Python boolean is the
  integer 0 or 1.
\<close>

datatype pyval =
  PyInt int | PyFloat real | PyBool bool | NpFloat npfloat | NpArray "npfloat list"

text \<open>
  The attributes \<^verbatim>\<open>soln\<close> and \<^verbatim>\<open>prob_dens\<close> hold \<^verbatim>\<open>None\<close> or a list of arrays;
  before the first assignment the attribute does not exist.
\<close>

datatype pyobj = PyNone | ArrList "npfloat list list"

record quantsim =
  sys :: string
  exp_vals :: "string \<rightharpoonup> pyval"
  sim_params :: "string \<rightharpoonup> pyval"
  soln :: "pyobj option"
  prob_dens :: "pyobj option"

definition hbar :: real where
  "hbar = 1"

definition getitem :: "(string \<rightharpoonup> pyval) \<Rightarrow> string \<Rightarrow> pyerr + pyval" where
  "getitem d k = (case d k of None \<Rightarrow> Inl (KeyError k) | Some v \<Rightarrow> Inr v)"

definition setitem :: "(string \<rightharpoonup> pyval) \<Rightarrow> string \<Rightarrow> pyval \<Rightarrow> (string \<rightharpoonup> pyval)" where
  "setitem d k v = d(k \<mapsto> v)"

text \<open>Sequencing of steps that may raise: the first exception ends the computation.\<close>

definition and_then :: "pyerr + 'a \<Rightarrow> ('a \<Rightarrow> pyerr + 'b) \<Rightarrow> pyerr + 'b" where
  "and_then r f = (case r of Inl e \<Rightarrow> Inl e | Inr v \<Rightarrow> f v)"

text \<open>
  A parameter used in Python arithmetic has to be a number. A NumPy value stored under
  a parameter key is outside the solvers' input type; the model reports it as a
  \<^verbatim>\<open>TypeError\<close> at the first use.
\<close>

fun scalar :: "pyval \<Rightarrow> pyerr + real" where
  "scalar (PyInt i) = Inr (real_of_int i)"
| "scalar (PyFloat r) = Inr r"
| "scalar (PyBool b) = Inr (if b then 1 else 0)"
| "scalar (NpFloat v) = Inl TypeError"
| "scalar (NpArray a) = Inl TypeError"

subsection \<open>NumPy arithmetic\<close>

fun np_div :: "npfloat \<Rightarrow> npfloat \<Rightarrow> npfloat" where
  "np_div (Fin a) (Fin b) = (if b = 0 then NonFin else Fin (a / b))"
| "np_div _ _ = NonFin"

fun np_sqrt :: "npfloat \<Rightarrow> npfloat" where
  "np_sqrt (Fin a) = (if a < 0 then NonFin else Fin (sqrt a))"
| "np_sqrt NonFin = NonFin"

fun np_mul :: "npfloat \<Rightarrow> npfloat \<Rightarrow> npfloat" where
  "np_mul (Fin a) (Fin b) = Fin (a * b)"
| "np_mul _ _ = NonFin"

fun np_sin :: "npfloat \<Rightarrow> npfloat" where
  "np_sin (Fin a) = Fin (sin a)"
| "np_sin NonFin = NonFin"

fun np_square :: "npfloat \<Rightarrow> npfloat" where
  "np_square (Fin a) = Fin (a ^ 2)"
| "np_square NonFin = NonFin"

fun np_exp :: "npfloat \<Rightarrow> npfloat" where
  "np_exp (Fin a) = Fin (exp a)"
| "np_exp NonFin = NonFin"

text \<open>\<^verbatim>\<open>b ** p\<close> on a NumPy float, for a fractional exponent \<open>p\<close>.\<close>

fun np_powr :: "npfloat \<Rightarrow> real \<Rightarrow> npfloat" where
  "np_powr (Fin a) p = (if a < 0 then NonFin else Fin (a powr p))"
| "np_powr NonFin p = NonFin"

text \<open>\<^verbatim>\<open>int(x)\<close> of a Python float truncates towards zero.\<close>

definition py_int :: "real \<Rightarrow> int" where
  "py_int r = (if 0 \<le> r then \<lfloor>r\<rfloor> else \<lceil>r\<rceil>)"

text \<open>
  \<^verbatim>\<open>np.linspace(0, stop, num)\<close> with the endpoint included. The solvers pass the
  float \<^verbatim>\<open>(L+dx)/dx\<close> as \<^verbatim>\<open>num\<close>; the NumPy releases the program was written for
  (before 1.18) convert it with \<^verbatim>\<open>int\<close> under a deprecation warning, and that is
  what the model follows. A negative count raises \<^verbatim>\<open>ValueError\<close>. For a count above
  one the samples are \<^verbatim>\<open>arange(0, num) * (stop / (num - 1))\<close> with the last sample
  overwritten by \<^verbatim>\<open>stop\<close>; for a count of one the only sample is \<^verbatim>\<open>0 * stop\<close>.
\<close>

definition linspace_pts :: "real \<Rightarrow> nat \<Rightarrow> real list" where
  "linspace_pts stop k =
     (if k \<le> 1 then map (\<lambda>i. real i * stop) [0..<k]
      else (map (\<lambda>i. real i * (stop / real (k - 1))) [0..<k])[k - 1 := stop])"

definition linspace :: "real \<Rightarrow> real \<Rightarrow> pyerr + real list" where
  "linspace stop num =
     (let k = py_int num in
      if k < 0 then Inl ValueError else Inr (linspace_pts stop (nat k)))"

text \<open>
  \<^verbatim>\<open>np.arange(lo, n + 1)\<close> on the mode count: integers \<open>lo, \<dots>, n\<close> for an integer
  \<open>n\<close>, the floats \<open>lo, lo + 1, \<dots>\<close> below \<open>n + 1\<close> for a float \<open>n\<close>. The second
  component tells whether the elements are integers.
\<close>

fun mode_numbers :: "int \<Rightarrow> pyval \<Rightarrow> pyerr + (int list \<times> bool)" where
  "mode_numbers lo (PyInt n) = Inr ([lo..n], True)"
| "mode_numbers lo (PyFloat r) = Inr ([lo..lo + \<lceil>r + 1 - real_of_int lo\<rceil> - 1], False)"
| "mode_numbers lo (PyBool b) = Inr ([lo..(if b then 1 else 0)], True)"
| "mode_numbers lo (NpFloat v) = Inl TypeError"
| "mode_numbers lo (NpArray a) = Inl TypeError"

section \<open>The infinite square well (QuantVisualizer.InfSqWell)\<close>

text \<open>The body of the loop over the mode numbers, for one mode \<open>n\<close>.\<close>

definition well_ampl :: "real \<Rightarrow> real list \<Rightarrow> int \<Rightarrow> npfloat list" where
  "well_ampl L x_vals n =
     (let kn = np_div (Fin (pi * real_of_int n)) (Fin L)
      in map (\<lambda>x. np_mul (np_sqrt (Fin (L / 2))) (np_sin (np_mul kn (Fin x)))) x_vals)"

definition well_energy :: "real \<Rightarrow> real \<Rightarrow> int \<Rightarrow> npfloat" where
  "well_energy L m n = np_div (Fin ((real_of_int n * pi * hbar) ^ 2)) (Fin (2 * m * L ^ 2))"

text \<open>
  The grid of both square-well solvers: \<^verbatim>\<open>np.linspace(0, L, num=(L+dx)/dx)\<close>.
\<close>

definition well_grid :: "pyval \<Rightarrow> pyval \<Rightarrow> pyerr + real list" where
  "well_grid Lv dxv =
     and_then (scalar Lv) (\<lambda>L.
     and_then (scalar dxv) (\<lambda>dx.
     if dx = 0 then Inl ZeroDivisionError else linspace L ((L + dx) / dx)))"

text \<open>
  What the solver computes before it writes anything: the grid, the amplitudes, the
  probability densities and the energy levels. The mass is first used inside the
  loop, so a mass that is no number matters only when there is a mode.
\<close>

record well_arrays =
  wa_x_vals :: "real list"
  wa_wfn_solns :: "npfloat list list"
  wa_prob_densities :: "npfloat list list"
  wa_energy_levels :: "npfloat list"

definition InfSqWell_arrays :: "quantsim \<Rightarrow> pyerr + well_arrays" where
  "InfSqWell_arrays q =
     and_then (getitem (sim_params q) ''length'') (\<lambda>Lv.
     and_then (getitem (sim_params q) ''mass'') (\<lambda>mv.
     and_then (getitem (sim_params q) ''dx'') (\<lambda>dxv.
     and_then (getitem (sim_params q) ''num_modes'') (\<lambda>nv.
     and_then (well_grid Lv dxv) (\<lambda>x_vals.
     and_then (mode_numbers 1 nv) (\<lambda>(n_array, ints).
     and_then (scalar Lv) (\<lambda>L.
     and_then (if n_array = [] then Inr 0 else scalar mv) (\<lambda>m.
     let wfn_solns = map (well_ampl L x_vals) n_array
     in Inr \<lparr>wa_x_vals = x_vals,
             wa_wfn_solns = wfn_solns,
             wa_prob_densities = map (map np_square) wfn_solns,
             wa_energy_levels = map (well_energy L m) n_array\<rparr>))))))))"

text \<open>
  The solver returns the pair \<^verbatim>\<open>(wfn_solns, prob_densities)\<close> or raises; the second
  component of the model's result is the context after the call. The two stores into
  \<^verbatim>\<open>sim_params\<close> are the last statements before the \<^verbatim>\<open>return\<close>.
\<close>

definition InfSqWell ::
  "quantsim \<Rightarrow> (pyerr + npfloat list list \<times> npfloat list list) \<times> quantsim" where
  "InfSqWell q =
     (case InfSqWell_arrays q of
        Inl e \<Rightarrow> (Inl e, q)
      | Inr a \<Rightarrow>
          (Inr (wa_wfn_solns a, wa_prob_densities a),
           q\<lparr>sim_params :=
               setitem (setitem (sim_params q) ''x_vals'' (NpArray (map Fin (wa_x_vals a))))
                 ''E_array'' (NpArray (wa_energy_levels a))\<rparr>))"

section \<open>The square well of SimPlayground.py\<close>






section \<open>The finite square well and the oscillator\<close>

text \<open>\<^verbatim>\<open>FinSqWell\<close> is a bare \<^verbatim>\<open>return\<close>: it yields \<^verbatim>\<open>None\<close> and touches nothing.\<close>

definition FinSqWell :: "quantsim \<Rightarrow> pyobj \<times> quantsim" where
  "FinSqWell q = (PyNone, q)"

text \<open>
  \<^verbatim>\<open>np.arange(start, stop, step)\<close> on Python floats: the length is the ceiling of
  \<^verbatim>\<open>(stop - start) / step\<close>, a Python division.
\<close>

definition arange :: "real \<Rightarrow> real \<Rightarrow> real \<Rightarrow> pyerr + real list" where
  "arange start stop step =
     (if step = 0 then Inl ZeroDivisionError
      else Inr (map (\<lambda>i. start + real i * step) [0..<nat \<lceil>(stop - start) / step\<rceil>]))"

text \<open>
  \<^verbatim>\<open>hermval(xi, c)\<close> with the coefficient vector that is 1 at index \<open>n\<close> and 0
  elsewhere is the physicists' Hermite polynomial \<open>H\<^sub>n\<close>.
\<close>

fun hermite_H :: "nat \<Rightarrow> real \<Rightarrow> real" where
  "hermite_H 0 x = 1"
| "hermite_H (Suc 0) x = 2 * x"
| "hermite_H (Suc (Suc n)) x = 2 * x * hermite_H (Suc n) x - 2 * real (Suc n) * hermite_H n x"

fun hermval :: "npfloat \<Rightarrow> nat \<Rightarrow> npfloat" where
  "hermval (Fin xi) n = Fin (hermite_H n xi)"
| "hermval NonFin n = NonFin"

definition hermite :: "real \<Rightarrow> npfloat \<Rightarrow> real \<Rightarrow> nat \<Rightarrow> npfloat" where
  "hermite m w x n =
     (let xi = np_mul (np_sqrt (np_div (np_mul (Fin m) w) (Fin hbar))) (Fin x)
      in hermval xi n)"

text \<open>The body of the oscillator's loop, for one mode \<open>n\<close>.\<close>

definition osc_ampl :: "real \<Rightarrow> npfloat \<Rightarrow> real list \<Rightarrow> int \<Rightarrow> npfloat list" where
  "osc_ampl m w x_vals n =
     (let alpha = np_mul (Fin (1 / sqrt (2 ^ nat n * fact (nat n))))
                         (np_powr (np_div (np_mul (Fin m) w) (Fin (pi * hbar))) 0.25)
      in map (\<lambda>x. let exp_decay = np_exp (np_mul (Fin (- (x ^ 2 / 2)))
                                                 (np_div (np_mul (Fin m) w) (Fin hbar)))
                   in np_mul (np_mul alpha exp_decay) (hermite m w x (nat n))) x_vals)"

text \<open>
  The angular frequency \<^verbatim>\<open>np.sqrt(k/m)\<close>: the quotient is a Python division.
\<close>

definition angular_frequency :: "pyval \<Rightarrow> pyval \<Rightarrow> pyerr + real \<times> npfloat" where
  "angular_frequency kv mv =
     and_then (scalar kv) (\<lambda>k.
     and_then (scalar mv) (\<lambda>m.
     if m = 0 then Inl ZeroDivisionError else Inr (m, np_sqrt (Fin (k / m)))))"

definition osc_grid :: "pyval \<Rightarrow> pyval \<Rightarrow> pyerr + real list" where
  "osc_grid Lv dxv =
     and_then (scalar Lv) (\<lambda>L.
     and_then (scalar dxv) (\<lambda>dx. arange (- L) L dx))"

text \<open>
  \<^verbatim>\<open>ParabSqWell\<close>. The loop indexes \<^verbatim>\<open>E_array[n]\<close>, which raises \<^verbatim>\<open>IndexError\<close>
  for a float \<open>n\<close>, that is when \<^verbatim>\<open>num_modes\<close> was a float and there is a mode.
  The stored energies are \<^verbatim>\<open>E_array/w\<close>.
\<close>

record osc_arrays =
  oa_x_vals :: "real list"
  oa_wfn_solns :: "npfloat list list"
  oa_prob_densities :: "npfloat list list"
  oa_E_array :: "npfloat list"
  oa_w :: npfloat

definition ParabSqWell_arrays :: "quantsim \<Rightarrow> pyerr + osc_arrays" where
  "ParabSqWell_arrays q =
     and_then (getitem (sim_params q) ''length'') (\<lambda>Lv.
     and_then (getitem (sim_params q) ''mass'') (\<lambda>mv.
     and_then (getitem (sim_params q) ''force_constant_k'') (\<lambda>kv.
     and_then (getitem (sim_params q) ''dx'') (\<lambda>dxv.
     and_then (getitem (sim_params q) ''num_modes'') (\<lambda>nv.
     and_then (osc_grid Lv dxv) (\<lambda>x_vals.
     and_then (mode_numbers 0 nv) (\<lambda>(n_array, ints).
     and_then (angular_frequency kv mv) (\<lambda>(m, w).
     let E_array = map (\<lambda>n. np_mul (Fin ((real_of_int n + 0.5) * hbar)) w) n_array
     in if n_array \<noteq> [] \<and> \<not> ints then Inl IndexError
        else
          let wfn_solns = map (osc_ampl m w x_vals) n_array
          in Inr \<lparr>oa_x_vals = x_vals,
                  oa_wfn_solns = wfn_solns,
                  oa_prob_densities = map (map np_square) wfn_solns,
                  oa_E_array = E_array,
                  oa_w = w\<rparr>))))))))"

definition ParabSqWell ::
  "quantsim \<Rightarrow> (pyerr + npfloat list list \<times> npfloat list list) \<times> quantsim" where
  "ParabSqWell q =
     (case ParabSqWell_arrays q of
        Inl e \<Rightarrow> (Inl e, q)
      | Inr a \<Rightarrow>
          (Inr (oa_wfn_solns a, oa_prob_densities a),
           q\<lparr>sim_params :=
               setitem (setitem (setitem (sim_params q)
                 ''x_vals'' (NpArray (map Fin (oa_x_vals a))))
                 ''E_array'' (NpArray (map (\<lambda>e. np_div e (oa_w a)) (oa_E_array a))))
                 ''ang_freq'' (NpFloat (oa_w a))\<rparr>))"

section \<open>The dispatcher (QuantVisualizer.simulate)\<close>

definition ISW_aliases :: "string list" where
  "ISW_aliases = [''1'', ''Infinite Square Well'', ''ISW'']"

definition FSW_aliases :: "string list" where
  "FSW_aliases = [''2'', ''Finite Square Well'', ''FSW'']"

definition QHO_aliases :: "string list" where
  "QHO_aliases = [''3'', ''Quantum Harmonic Oscillator'', ''QHO'']"

definition not_found_msg :: string where
  "not_found_msg = CHR 0x0A # ''System not found. Please reinitialize object.'' @ [CHR 0x0A]"

text \<open>
  \<^verbatim>\<open>simulate\<close> returns \<^verbatim>\<open>None\<close> or lets a solver's exception pass. The result is the
  outcome, the context afterwards and the lines printed.
\<close>

definition store_results ::
  "(pyerr + npfloat list list \<times> npfloat list list) \<times> quantsim
     \<Rightarrow> (pyerr + unit) \<times> quantsim \<times> string list" where
  "store_results r =
     (case r of
        (Inl e, q') \<Rightarrow> (Inl e, q', [])
      | (Inr (s, p), q') \<Rightarrow>
          (Inr (), q'\<lparr>soln := Some (ArrList s), prob_dens := Some (ArrList p)\<rparr>, []))"

definition simulate :: "quantsim \<Rightarrow> (pyerr + unit) \<times> quantsim \<times> string list" where
  "simulate q =
     (let choice = sys q in
      if choice \<in> set ISW_aliases then
        store_results (InfSqWell q)
      else if choice \<in> set FSW_aliases then
        (let (r, q') = FinSqWell q in (Inr (), q'\<lparr>soln := Some r\<rparr>, []))
      else if choice \<in> set QHO_aliases then
        store_results (ParabSqWell q)
      else (Inr (), q, [not_found_msg]))"

section \<open>Notions used in the statements\<close>

text \<open>A parameter that is present and is the Python number \<open>r\<close>.\<close>

definition param :: "quantsim \<Rightarrow> string \<Rightarrow> real \<Rightarrow> bool" where
  "param q k r = (case sim_params q k of None \<Rightarrow> False | Some v \<Rightarrow> scalar v = Inr r)"

text \<open>The parameter sets the specification calls valid.\<close>

definition valid_well :: "quantsim \<Rightarrow> real \<Rightarrow> real \<Rightarrow> real \<Rightarrow> int \<Rightarrow> bool" where
  "valid_well q L m dx n =
     (param q ''length'' L \<and> param q ''mass'' m \<and> param q ''dx'' dx \<and>
      sim_params q ''num_modes'' = Some (PyInt n) \<and> 0 < L \<and> 0 < m \<and> 0 < dx \<and> 1 \<le> n)"


text \<open>A context as a caller builds it, before any solve.\<close>

definition fresh_context :: "string \<Rightarrow> (string \<times> pyval) list \<Rightarrow> quantsim" where
  "fresh_context name params =
     \<lparr>sys = name, exp_vals = Map.empty, sim_params = map_of params,
      soln = None, prob_dens = None\<rparr>"

definition well_params :: "real \<Rightarrow> real \<Rightarrow> real \<Rightarrow> int \<Rightarrow> (string \<times> pyval) list" where
  "well_params L m dx n =
     [(''length'', PyFloat L), (''mass'', PyFloat m), (''dx'', PyFloat dx),
      (''num_modes'', PyInt n)]"

definition osc_params :: "real \<Rightarrow> real \<Rightarrow> real \<Rightarrow> real \<Rightarrow> int \<Rightarrow> (string \<times> pyval) list" where
  "osc_params L m k dx n =
     [(''length'', PyFloat L), (''mass'', PyFloat m), (''force_constant_k'', PyFloat k),
      (''dx'', PyFloat dx), (''num_modes'', PyInt n)]"




text \<open>
  The stored grid, and what it means for a list of positions to sample the closed
  interval from 0 to \<open>L\<close>: both endpoints are there and the positions increase strictly.
\<close>

definition stored_grid :: "quantsim \<Rightarrow> npfloat list option" where
  "stored_grid q = (case sim_params q ''x_vals'' of Some (NpArray a) \<Rightarrow> Some a | _ \<Rightarrow> None)"









text \<open>
  The normalisation check of the specification: the sum over the grid of probability
  density times spatial step.
\<close>

fun np_add :: "npfloat \<Rightarrow> npfloat \<Rightarrow> npfloat" where
  "np_add (Fin a) (Fin b) = Fin (a + b)"
| "np_add _ _ = NonFin"

definition discrete_norm :: "real \<Rightarrow> npfloat list \<Rightarrow> npfloat" where
  "discrete_norm dx ps = foldr (\<lambda>p acc. np_add (np_mul p (Fin dx)) acc) ps (Fin 0)"



text \<open>
  The squared amplitude of mode \<open>j\<close> as a function on the reals, and a primitive of it.
\<close>

definition well_density :: "real \<Rightarrow> int \<Rightarrow> real \<Rightarrow> real" where
  "well_density L j x = (sqrt (L / 2) * sin (pi * real_of_int j * x / L)) ^ 2"

definition well_density_primitive :: "real \<Rightarrow> int \<Rightarrow> real \<Rightarrow> real" where
  "well_density_primitive L j x =
     L / 2 * (x / 2 - L / (4 * pi * real_of_int j) * sin (2 * pi * real_of_int j * x / L))"

section \<open>Valid parameters: what the solvers compute\<close>

lemma py_int_count: "0 < L \<Longrightarrow> 0 < dx \<Longrightarrow> py_int ((L + dx) / dx) = \<lfloor>L / dx\<rfloor> + 1"
  by (simp add: py_int_def add_divide_distrib)

lemma well_grid_valid:
  assumes "scalar Lv = Inr L" "scalar dxv = Inr dx" "0 < L" "0 < dx"
  shows "well_grid Lv dxv = Inr (linspace_pts L (nat \<lfloor>L / dx\<rfloor> + 1))"
proof -
  have "0 \<le> \<lfloor>L / dx\<rfloor>" using assms by simp
  then have "nat (\<lfloor>L / dx\<rfloor> + 1) = nat \<lfloor>L / dx\<rfloor> + 1" by linarith
  then show ?thesis using assms
    by (simp add: well_grid_def and_then_def linspace_def py_int_count Let_def)
qed

lemma InfSqWell_arrays_valid:
  assumes "valid_well q L m dx n"
  shows "InfSqWell_arrays q =
     Inr \<lparr>wa_x_vals = linspace_pts L (nat \<lfloor>L / dx\<rfloor> + 1),
          wa_wfn_solns = map (well_ampl L (linspace_pts L (nat \<lfloor>L / dx\<rfloor> + 1))) [1..n],
          wa_prob_densities =
            map (map np_square) (map (well_ampl L (linspace_pts L (nat \<lfloor>L / dx\<rfloor> + 1))) [1..n]),
          wa_energy_levels = map (well_energy L m) [1..n]\<rparr>"
  using assms
  apply (clarsimp simp: valid_well_def param_def InfSqWell_arrays_def getitem_def and_then_def
      split: option.splits)
  apply (simp add: well_grid_valid Let_def)
  done





lemma valid_well_example:
  "valid_well (fresh_context ''ISW'' (well_params 10 1 (1/10) 3)) 10 1 (1/10) 3"
  by (simp add: valid_well_def fresh_context_def well_params_def param_def)


section \<open>Shape of the results\<close>



section \<open>Energies\<close>








section \<open>The grid of the square well\<close>

lemma linspace_pts_uniform:
  assumes "2 \<le> k"
  shows "linspace_pts L k = map (\<lambda>i. real i * (L / real (k - 1))) [0..<k]"
proof -
  have "(map (\<lambda>i. real i * (L / real (k - 1))) [0..<k]) ! (k - 1) = L"
    using assms by simp
  then have "(map (\<lambda>i. real i * (L / real (k - 1))) [0..<k])[k - 1 := L]
      = map (\<lambda>i. real i * (L / real (k - 1))) [0..<k]"
    by (metis list_update_id)
  then show ?thesis using assms by (simp add: linspace_pts_def)
qed



lemma valid_well_half: "valid_well (fresh_context ''ISW'' (well_params 1 1 (1/2) 1)) 1 1 (1/2) 1"
  by (simp add: valid_well_def fresh_context_def well_params_def param_def)





section \<open>Amplitudes and normalisation of the square well\<close>

lemma cos_sum_telescope:
  "2 * sin (t / 2) * (\<Sum>i<N. cos (real i * t)) = sin ((real N - 1 / 2) * t) + sin (t / 2)"
proof (induction N)
  case 0
  have "sin (- (t / 2)) = - sin (t / 2)" by (rule sin_minus)
  then show ?case by simp
next
  case (Suc N)
  have "sin (real N * t + t / 2) - sin (real N * t - t / 2) = 2 * sin (t / 2) * cos (real N * t)"
    by (simp add: sin_add sin_diff)
  moreover have "(real (Suc N) - 1 / 2) * t = real N * t + t / 2"
    by (simp add: algebra_simps)
  moreover have "(real N - 1 / 2) * t = real N * t - t / 2"
    by (simp add: algebra_simps)
  ultimately show ?case using Suc by (simp add: algebra_simps)
qed

lemma cos_sum_zero:
  assumes "0 < n" "n < N"
  shows "(\<Sum>i<N. cos (real i * (2 * pi * real n / real N))) = 0"
proof -
  define t where "t = 2 * pi * real n / real N"
  have N: "0 < real N" using assms by simp
  have half: "t / 2 = pi * real n / real N" by (simp add: t_def)
  have "0 < pi * real n / real N" using assms by simp
  moreover have "pi * real n / real N < pi"
  proof -
    have "real n / real N < 1" using assms by simp
    then have "pi * (real n / real N) < pi * 1" by (intro mult_strict_left_mono) simp_all
    then show ?thesis by simp
  qed
  ultimately have s: "0 < sin (t / 2)" unfolding half by (rule sin_gt_zero)
  have "(real N - 1 / 2) * t = 2 * real n * pi - t / 2"
    using N by (simp add: t_def field_simps)
  then have "sin ((real N - 1 / 2) * t) = sin (2 * real n * pi - t / 2)"
    by simp
  also have "\<dots> = - sin (t / 2)"
    by (simp add: sin_diff)
  finally have "sin ((real N - 1 / 2) * t) = - sin (t / 2)" .
  then have "2 * sin (t / 2) * (\<Sum>i<N. cos (real i * t)) = 0"
    using cos_sum_telescope [of t N] by simp
  then show ?thesis using s by (simp add: t_def)
qed

lemma sin_squared_sum:
  assumes "0 < n" "n < N"
  shows "(\<Sum>i<Suc N. (sin (pi * real n * real i / real N)) ^ 2) = real N / 2"
proof -
  have N: "0 < real N" using assms by simp
  have sq: "(sin x) ^ 2 = (1 - cos (2 * x)) / 2" for x :: real
    by (simp add: cos_double_sin)
  have "(\<Sum>i<Suc N. (sin (pi * real n * real i / real N)) ^ 2)
      = (\<Sum>i<Suc N. (1 - cos (real i * (2 * pi * real n / real N))) / 2)"
    by (rule sum.cong) (simp_all add: sq mult_ac)
  also have "\<dots> = (\<Sum>i<Suc N. 1 - cos (real i * (2 * pi * real n / real N))) / 2"
    by (simp only: sum_divide_distrib)
  also have "\<dots> = (real (Suc N) - (\<Sum>i<Suc N. cos (real i * (2 * pi * real n / real N)))) / 2"
    by (simp only: sum_subtractf) simp
  also have "(\<Sum>i<Suc N. cos (real i * (2 * pi * real n / real N)))
      = cos (2 * real n * pi)"
    using cos_sum_zero [OF assms] N by (simp add: mult_ac)
  also have "cos (2 * real n * pi) = 1"
    by (rule cos_2npi)
  finally show ?thesis by simp
qed

lemma discrete_norm_Fin: "discrete_norm dx (map Fin rs) = Fin (sum_list rs * dx)"
  by (induction rs) (simp_all add: discrete_norm_def distrib_right)

lemma well_ampl_valid:
  assumes "0 < L"
  shows "well_ampl L xs j = map (\<lambda>x. Fin (sqrt (L / 2) * sin (pi * real_of_int j * x / L))) xs"
  using assms by (simp add: well_ampl_def not_less)

lemma well_density_valid:
  assumes "0 < L"
  shows "map np_square (well_ampl L xs j)
     = map Fin (map (\<lambda>x. L / 2 * (sin (pi * real_of_int j * x / L)) ^ 2) xs)"
  using assms by (simp add: well_ampl_valid power_mult_distrib)

lemma well_density_sum:
  assumes "0 < L" "0 < j" "j < N"
  shows "sum_list (map (\<lambda>x. L / 2 * (sin (pi * real j * x / L)) ^ 2)
           (map (\<lambda>i. real i * (L / real N)) [0..<Suc N])) = L * real N / 4"
proof -
  have N: "0 < real N" using assms by simp
  have arg: "pi * real j * (real i * (L / real N)) / L = pi * real j * real i / real N" for i
    using assms N by simp
  have "sum_list (map (\<lambda>x. L / 2 * (sin (pi * real j * x / L)) ^ 2)
           (map (\<lambda>i. real i * (L / real N)) [0..<Suc N]))
      = (\<Sum>i<Suc N. L / 2 * (sin (pi * real j * real i / real N)) ^ 2)"
    by (simp only: map_map o_def arg interv_sum_list_conv_sum_set_nat set_upt atLeast0LessThan)
  also have "\<dots> = L / 2 * (\<Sum>i<Suc N. (sin (pi * real j * real i / real N)) ^ 2)"
    by (simp only: sum_distrib_left)
  also have "\<dots> = L / 2 * (real N / 2)"
    by (simp only: sin_squared_sum [OF assms(2,3)])
  finally show ?thesis by simp
qed

text \<open>
  For all valid parameters, the amplitude of mode \<open>j\<close> is
  \<open>sqrt (L/2) * sin (\<pi> j x / L)\<close> at every grid point \<open>x\<close>, and when \<open>j\<close> is below the
  number of grid intervals the discrete norm is exactly \<open>L * \<lfloor>L/dx\<rfloor> * dx / 4\<close>. As the
  step shrinks this tends to \<open>L\<^sup>2 / 4\<close>, not to 1.
\<close>

lemma well_discrete_norm:
  assumes "valid_well q L m dx n" "1 \<le> j" "j \<le> n"
  shows "\<exists>xs s p. stored_grid (snd (InfSqWell q)) = Some (map Fin xs) \<and>
           fst (InfSqWell q) = Inr (s, p) \<and>
           s ! nat (j - 1) = map (\<lambda>x. Fin (sqrt (L / 2) * sin (pi * real_of_int j * x / L))) xs \<and>
           (j < \<lfloor>L / dx\<rfloor> \<longrightarrow>
              discrete_norm dx (p ! nat (j - 1)) = Fin (L * real_of_int \<lfloor>L / dx\<rfloor> * dx / 4))"
proof -
  define xs where "xs = linspace_pts L (nat \<lfloor>L / dx\<rfloor> + 1)"
  define s where "s = map (well_ampl L xs) [1..n]"
  define p where "p = map (map np_square) s"
  have pos: "0 < L" "0 < dx" using assms by (simp_all add: valid_well_def)
  have idx: "nat (j - 1) < length [1..n]" "[1..n] ! nat (j - 1) = j"
    using assms by (simp_all add: nth_upto)
  have "stored_grid (snd (InfSqWell q)) = Some (map Fin xs)"
    using InfSqWell_arrays_valid [OF assms(1)]
    by (simp add: InfSqWell_def stored_grid_def setitem_def xs_def)
  moreover have "fst (InfSqWell q) = Inr (s, p)"
    using InfSqWell_arrays_valid [OF assms(1)]
    by (simp add: InfSqWell_def xs_def s_def p_def)
  moreover have sj: "s ! nat (j - 1) = well_ampl L xs j"
    using idx by (simp add: s_def)
  then have "s ! nat (j - 1) = map (\<lambda>x. Fin (sqrt (L / 2) * sin (pi * real_of_int j * x / L))) xs"
    by (simp only: well_ampl_valid [OF pos(1)])
  moreover have "discrete_norm dx (p ! nat (j - 1)) = Fin (L * real_of_int \<lfloor>L / dx\<rfloor> * dx / 4)"
    if a: "j < \<lfloor>L / dx\<rfloor>"
  proof -
    define N where "N = nat \<lfloor>L / dx\<rfloor>"
    have fl: "1 < \<lfloor>L / dx\<rfloor>" using a assms(2) by linarith
    have N: "nat j < N" "0 < nat j" "real N = real_of_int \<lfloor>L / dx\<rfloor>" "2 \<le> N + 1"
      using a assms(2) fl unfolding N_def by linarith+
    have j: "real (nat j) = real_of_int j" using assms by simp
    have grid: "xs = map (\<lambda>i. real i * (L / real N)) [0..<Suc N]"
      using linspace_pts_uniform [OF N(4), of L] by (simp add: xs_def N_def)
    have "p ! nat (j - 1) = map np_square (well_ampl L xs j)"
      using idx sj by (simp add: p_def s_def)
    also have "\<dots> = map Fin (map (\<lambda>x. L / 2 * (sin (pi * real (nat j) * x / L)) ^ 2) xs)"
      by (simp only: well_density_valid [OF pos(1)] j)
    finally have "discrete_norm dx (p ! nat (j - 1))
        = Fin (sum_list (map (\<lambda>x. L / 2 * (sin (pi * real (nat j) * x / L)) ^ 2) xs) * dx)"
      by (simp only: discrete_norm_Fin)
    also have "sum_list (map (\<lambda>x. L / 2 * (sin (pi * real (nat j) * x / L)) ^ 2) xs)
        = L * real N / 4"
      unfolding grid by (rule well_density_sum [OF pos(1) N(2) N(1)])
    finally show ?thesis by (simp add: N(3))
  qed
  ultimately show ?thesis by blast
qed

lemma valid_well_eighth: "valid_well (fresh_context ''ISW'' (well_params 1 1 (1/8) 3)) 1 1 (1/8) 3"
  by (simp add: valid_well_def fresh_context_def well_params_def param_def)

text \<open>Refining the grid from step 1/2 to step 1/8 leaves the discrete norm at 1/4.\<close>

lemma well_discrete_norm_finer:
  "\<exists>s p. fst (InfSqWell (fresh_context ''ISW'' (well_params 1 1 (1/8) 3))) = Inr (s, p) \<and>
          discrete_norm (1/8) (p ! 0) = Fin (1/4)"
  using well_discrete_norm [OF valid_well_eighth, of 1]
  by auto

text \<open>
  In the continuum the squared amplitude has the primitive \<open>well_density_primitive\<close>,
  whose increase over the interval from 0 to \<open>L\<close> is \<open>L\<^sup>2 / 4\<close>: the integral of the
  squared amplitude is \<open>L\<^sup>2 / 4\<close>, which is 1 only for \<open>L = 2\<close>.
\<close>

lemma well_density_primitive_deriv:
  assumes "0 < L" "1 \<le> j"
  shows "(well_density_primitive L j has_real_derivative well_density L j x) (at x)"
proof -
  have j: "real_of_int j \<noteq> 0" using assms by simp
  have sq: "(sin y) ^ 2 = (1 - cos (2 * y)) / 2" for y :: real
    by (simp add: cos_double_sin)
  have "((\<lambda>x. L / 2 * (x / 2 - L / (4 * pi * real_of_int j) * sin (2 * pi * real_of_int j * x / L)))
      has_real_derivative
        L / 2 * (1 / 2 - L / (4 * pi * real_of_int j)
          * (cos (2 * pi * real_of_int j * x / L) * (2 * pi * real_of_int j / L)))) (at x)"
    by (auto intro!: derivative_eq_intros)
  moreover have "L / 2 * (1 / 2 - L / (4 * pi * real_of_int j)
          * (cos (2 * pi * real_of_int j * x / L) * (2 * pi * real_of_int j / L)))
      = well_density L j x"
  proof -
    have arg: "2 * pi * real_of_int j * x / L = 2 * (pi * real_of_int j * x / L)" by simp
    have coef: "L / (4 * pi * real_of_int j) * (c * (2 * pi * real_of_int j / L)) = c / 2" for c
      using assms j by (simp add: field_simps)
    have amp: "(sqrt (L / 2)) ^ 2 = L / 2" using assms by simp
    have "L / 2 * (1 / 2 - L / (4 * pi * real_of_int j)
          * (cos (2 * pi * real_of_int j * x / L) * (2 * pi * real_of_int j / L)))
        = L / 2 * (1 / 2 - cos (2 * (pi * real_of_int j * x / L)) / 2)"
      by (simp only: arg coef)
    also have "\<dots> = L / 2 * (sin (pi * real_of_int j * x / L)) ^ 2"
      by (simp only: sq diff_divide_distrib)
    also have "\<dots> = well_density L j x"
      by (simp only: well_density_def power_mult_distrib amp)
    finally show ?thesis .
  qed
  ultimately show ?thesis
    unfolding well_density_primitive_def [abs_def] by simp
qed

lemma well_density_primitive_span:
  assumes "0 < L" "1 \<le> j"
  shows "well_density_primitive L j L - well_density_primitive L j 0 = L ^ 2 / 4"
proof -
  have "sin (2 * pi * real_of_int j) = 0"
    using sin_int_2pin [of j] by (simp add: mult.assoc)
  then show ?thesis using assms
    by (simp add: well_density_primitive_def power2_eq_square)
qed

text \<open>
  Claim C1. The amplitude is \<open>sqrt (L/2) * sin (\<pi> n x / L)\<close> at every grid point, but
  this factor does not normalise: for length 1, mass 1, step 1/2 and one mode the solver
  returns the amplitudes \<open>0, sqrt (1/2), 0\<close> and the densities \<open>0, 1/2, 0\<close>, whose
  discrete norm is 1/4 and not 1.
\<close>

theorem well_normalisation_failing_input:
  "fst (InfSqWell (fresh_context ''ISW'' (well_params 1 1 (1/2) 1)))
     = Inr ([[Fin 0, Fin (sqrt (1/2)), Fin 0]], [[Fin 0, Fin (1/2), Fin 0]]) \<and>
   discrete_norm (1/2) [Fin 0, Fin (1/2), Fin 0] = Fin (1/4)"
proof -
  have "[0..<3] = [0, 1, 2]"
    by (simp add: numeral_3_eq_3 upt_rec)
  then have grid: "linspace_pts 1 3 = [0, 1/2, 1]"
    by (simp add: linspace_pts_def)
  have modes: "[1..1] = [1::int]"
    by (simp add: upto_rec1)
  have amp: "well_ampl 1 [0, 1/2, 1] 1 = [Fin 0, Fin (sqrt (1/2)), Fin 0]"
    by (simp add: well_ampl_valid)
  have sq: "(sqrt (1/2)) ^ 2 = (1/2 :: real)"
    by simp
  have "fst (InfSqWell (fresh_context ''ISW'' (well_params 1 1 (1/2) 1)))
     = Inr ([[Fin 0, Fin (sqrt (1/2)), Fin 0]], [[Fin 0, Fin (1/2), Fin 0]])"
    using InfSqWell_arrays_valid [OF valid_well_half] grid modes amp sq
    by (simp add: InfSqWell_def)
  moreover have "discrete_norm (1/2) [Fin 0, Fin (1/2), Fin 0] = Fin (1/4)"
    by (simp add: discrete_norm_def)
  ultimately show ?thesis by simp
qed

section \<open>Parameters the solvers do not check\<close>










section \<open>The dispatcher on unknown and unimplemented systems\<close>

text \<open>
  Claim C3, amended. For a system identifier in no alias list, \<^verbatim>\<open>simulate\<close> prints the
  line "System not found. Please reinitialize object." and returns normally: no
  exception and no error value reaches the caller. The context is unmodified, so grid and
  solution stay absent when they were absent.
\<close>

theorem unknown_system:
  assumes "sys q \<notin> set ISW_aliases" "sys q \<notin> set FSW_aliases" "sys q \<notin> set QHO_aliases"
  shows "simulate q = (Inr (), q, [not_found_msg])"
  using assms by (simp add: simulate_def)

theorem unknown_system_witness:
  "simulate (fresh_context ''nonexistent'' (well_params 10 1 (1/10) 3)) =
     (Inr (), fresh_context ''nonexistent'' (well_params 10 1 (1/10) 3), [not_found_msg]) \<and>
   sim_params (fst (snd (simulate (fresh_context ''nonexistent'' (well_params 10 1 (1/10) 3)))))
     ''x_vals'' = None \<and>
   soln (fst (snd (simulate (fresh_context ''nonexistent'' (well_params 10 1 (1/10) 3))))) = None"
  using unknown_system [of "fresh_context ''nonexistent'' (well_params 10 1 (1/10) 3)"]
  by (simp add: fresh_context_def ISW_aliases_def FSW_aliases_def QHO_aliases_def well_params_def)

text \<open>
  As stated, C3 fails: for the identifier "nonexistent" the outcome of \<^verbatim>\<open>simulate\<close> is
  the normal return, as after a successful solve, and no UnknownSystem is raised.
\<close>

theorem unknown_system_counterexample:
  "fst (simulate (fresh_context ''nonexistent'' (well_params 10 1 (1/10) 3))) = Inr ()"
  by (simp add: simulate_def fresh_context_def ISW_aliases_def FSW_aliases_def QHO_aliases_def)

text \<open>
  Claim C4, amended. For the finite square well the solver computes nothing and returns
  \<^verbatim>\<open>None\<close>; \<^verbatim>\<open>simulate\<close> stores that \<^verbatim>\<open>None\<close> as the solution, prints nothing and
  returns normally, without any UnsupportedSystem. The unknown-system branch differs
  from it: that one prints a line and does not touch the solution.
\<close>

theorem finite_well:
  assumes "sys q \<in> set FSW_aliases"
  shows "FinSqWell q = (PyNone, q) \<and> simulate q = (Inr (), q\<lparr>soln := Some PyNone\<rparr>, [])"
proof -
  have "sys q \<notin> set ISW_aliases"
    using assms by (auto simp: ISW_aliases_def FSW_aliases_def)
  then show ?thesis using assms by (simp add: simulate_def FinSqWell_def)
qed

theorem finite_well_witness:
  "simulate (fresh_context ''FSW'' [])
     = (Inr (), (fresh_context ''FSW'' [])\<lparr>soln := Some PyNone\<rparr>, []) \<and>
   simulate (fresh_context ''nonexistent'' [])
     = (Inr (), fresh_context ''nonexistent'' [], [not_found_msg])"
  using finite_well [of "fresh_context ''FSW'' []"]
  by (simp add: fresh_context_def FSW_aliases_def simulate_def ISW_aliases_def QHO_aliases_def)

text \<open>
  As stated, C4 fails: for the identifier "FSW" \<^verbatim>\<open>simulate\<close> returns normally.
\<close>

theorem finite_well_counterexample:
  "fst (simulate (fresh_context ''FSW'' [])) = Inr ()"
  by (simp add: simulate_def fresh_context_def ISW_aliases_def FSW_aliases_def FinSqWell_def)

section \<open>What the solvers write\<close>

lemma InfSqWell_frame:
  "sys (snd (InfSqWell q)) = sys q \<and> exp_vals (snd (InfSqWell q)) = exp_vals q \<and>
   soln (snd (InfSqWell q)) = soln q \<and> prob_dens (snd (InfSqWell q)) = prob_dens q \<and>
   (\<forall>k. k \<notin> {''x_vals'', ''E_array''} \<longrightarrow>
      sim_params (snd (InfSqWell q)) k = sim_params q k)"
  by (simp add: InfSqWell_def setitem_def split: sum.splits)

lemma ParabSqWell_frame:
  "sys (snd (ParabSqWell q)) = sys q \<and> exp_vals (snd (ParabSqWell q)) = exp_vals q \<and>
   soln (snd (ParabSqWell q)) = soln q \<and> prob_dens (snd (ParabSqWell q)) = prob_dens q \<and>
   (\<forall>k. k \<notin> {''x_vals'', ''E_array'', ''ang_freq''} \<longrightarrow>
      sim_params (snd (ParabSqWell q)) k = sim_params q k)"
  by (simp add: ParabSqWell_def setitem_def split: sum.splits)

text \<open>
  Claim C5, amended. The solvers do write to the context, but only into
  \<^verbatim>\<open>sim_params\<close> and only under the keys \<^verbatim>\<open>x_vals\<close> and \<^verbatim>\<open>E_array\<close> (the
  oscillator also under \<^verbatim>\<open>ang_freq\<close>). The system identifier, \<^verbatim>\<open>exp_vals\<close>, every other
  parameter, and the attributes \<^verbatim>\<open>soln\<close> and \<^verbatim>\<open>prob_dens\<close>, which only the dispatcher
  assigns, are as before the call.
\<close>

theorem solver_effects:
  "sys (snd (InfSqWell q)) = sys q \<and> exp_vals (snd (InfSqWell q)) = exp_vals q \<and>
   soln (snd (InfSqWell q)) = soln q \<and> prob_dens (snd (InfSqWell q)) = prob_dens q \<and>
   (\<forall>k. k \<notin> {''x_vals'', ''E_array''} \<longrightarrow>
      sim_params (snd (InfSqWell q)) k = sim_params q k) \<and>
   sys (snd (ParabSqWell q)) = sys q \<and> exp_vals (snd (ParabSqWell q)) = exp_vals q \<and>
   soln (snd (ParabSqWell q)) = soln q \<and> prob_dens (snd (ParabSqWell q)) = prob_dens q \<and>
   (\<forall>k. k \<notin> {''x_vals'', ''E_array'', ''ang_freq''} \<longrightarrow>
      sim_params (snd (ParabSqWell q)) k = sim_params q k)"
  using InfSqWell_frame [of q] ParabSqWell_frame [of q] by blast

theorem solver_effects_witness:
  "sim_params (snd (InfSqWell (fresh_context ''ISW'' (well_params 10 1 (1/10) 3)))) ''mass''
     = Some (PyFloat 1) \<and>
   sim_params (snd (ParabSqWell (fresh_context ''QHO'' (osc_params 10 1 1 (1/10) 3)))) ''mass''
     = Some (PyFloat 1) \<and>
   soln (snd (InfSqWell (fresh_context ''ISW'' (well_params 10 1 (1/10) 3)))) = None"
  using solver_effects [of "fresh_context ''ISW'' (well_params 10 1 (1/10) 3)"]
    solver_effects [of "fresh_context ''QHO'' (osc_params 10 1 1 (1/10) 3)"]
  by (simp add: fresh_context_def well_params_def osc_params_def)

text \<open>
  As stated, C5 fails: the context after a valid square-well solve is not the context
  before it, because the grid has been stored under \<^verbatim>\<open>x_vals\<close>.
\<close>

theorem solver_effects_counterexample:
  "snd (InfSqWell (fresh_context ''ISW'' (well_params 10 1 (1/10) 3)))
     \<noteq> fresh_context ''ISW'' (well_params 10 1 (1/10) 3)"
proof
  assume "snd (InfSqWell (fresh_context ''ISW'' (well_params 10 1 (1/10) 3)))
     = fresh_context ''ISW'' (well_params 10 1 (1/10) 3)"
  then have "sim_params (snd (InfSqWell (fresh_context ''ISW'' (well_params 10 1 (1/10) 3))))
       ''x_vals''
     = sim_params (fresh_context ''ISW'' (well_params 10 1 (1/10) 3)) ''x_vals''"
    by simp
  then show False
    using InfSqWell_arrays_valid [OF valid_well_example]
    by (simp add: InfSqWell_def setitem_def fresh_context_def well_params_def)
qed

section \<open>The two square-well solvers\<close>








end
